theory Spec2Isabelle
  imports Main "HOL-Library.Sublist"
begin

section \<open>The plugin-side RPC client of tflint-plugin-sdk (tflint/client.go)\<close>

text \<open>
  The client asks the host process for attributes, for the value of an expression and
  to record an issue. Its effects are made explicit here:
  \<^item> the world outside the client (host process, file system, the caller's closures) is
    a state of type \<open>'w\<close> that every effectful call takes and returns;
  \<^item> a Go \<open>error\<close> is a \<open>go_error option\<close>, \<open>None\<close> being \<open>nil\<close>;
  \<^item> a \<open>panic\<close> is the \<open>Panicked\<close> branch of \<open>outcome\<close>;
  \<^item> the functions of other packages (the two HCL parsers, \<open>Range.SliceBytes\<close>,
    \<open>gocty.FromCtyValue\<close>, \<open>ioutil.ReadFile\<close>, \<open>rpc.Client.Call\<close>) are parameters of
    the operation that calls them, under the name the source calls them by;
    \<open>Range_SliceBytes\<close> is the slicing method as the hcl package defines it, for the
    properties that depend on which bytes are sent.
  The two \<open>log.Printf\<close> lines write to the process log only and are left out. The
  functions of other packages and the caller's closures (\<open>walker\<close>, \<open>proc\<close>) are taken
  to return; the panics modelled are the two that client.go raises itself. The elements
  of \<open>response.Attributes\<close> are pointers in the source and are taken to be non-nil.
\<close>

subsection \<open>Positions, ranges and diagnostics of the hcl package\<close>

type_synonym bytes = "char list"

record hcl_Pos =
  Line :: int
  Column :: int
  Byte :: int

record hcl_Range =
  Filename :: string
  Start :: hcl_Pos
  End :: hcl_Pos

datatype hcl_DiagnosticSeverity = DiagInvalid | DiagError | DiagWarning

record hcl_Diagnostic =
  Severity :: hcl_DiagnosticSeverity
  Summary :: string
  Detail :: string

type_synonym hcl_Diagnostics = "hcl_Diagnostic list"

text \<open>\<open>Diagnostics.HasErrors\<close>: some diagnostic of the list has severity \<open>DiagError\<close>.\<close>

definition HasErrors :: "hcl_Diagnostics \<Rightarrow> bool" where
  "HasErrors diags = list_ex (\<lambda>diag. Severity diag = DiagError) diags"

text \<open>
  An \<open>hcl.Expression\<close> is an interface value; the client only ever calls its \<open>Range()\<close>
  method. It is a record of that method's result and of the syntax node it stands for.
\<close>

record 'n hcl_Expression =
  Range :: hcl_Range
  Node :: 'n

record 'n hcl_Attribute =
  Name :: string
  Expr :: "'n hcl_Expression"
  Range :: hcl_Range
  NameRange :: hcl_Range

subsection \<open>Errors\<close>

text \<open>
  Modelled from the spec: the struct \<open>Error\<close> and the constants \<open>WarningLevel\<close>,
  \<open>ErrorLevel\<close> and \<open>TypeMismatchError\<close> are declared outside client.go. The spec gives
  a leveled error a code (an enumerated symbol), a level (Warning or Blocking, any other
  value being a defect), a message and an optional cause. \<open>UnknownLevel\<close> stands for
  every level value that is neither of the two constants, \<open>OtherCode\<close> for every code
  that is not \<open>TypeMismatchError\<close>.

  The dynamic type of an \<open>error\<close> value matters to \<open>EnsureNoError\<close>, so \<open>go_error\<close> has
  one constructor per dynamic type the client meets: the struct \<open>Error\<close> itself, a
  pointer \<open>*Error\<close>, \<open>hcl.Diagnostics\<close>, and any other error (I/O, transport, the
  caller's own).
\<close>

datatype level = WarningLevel | ErrorLevel | UnknownLevel int

datatype code = TypeMismatchError | OtherCode int

datatype go_error =
    ErrorValue Error
  | ErrorPointer Error
  | DiagnosticsError hcl_Diagnostics
  | ForeignError string
and Error =
    Error (Code: code) (Level: level) (Message: string) (Cause: "go_error option")

datatype panic_value = PanicString string | PanicError Error

datatype 'a outcome = Returned 'a | Panicked panic_value

subsection \<open>Wire types\<close>

record AttributesRequest =
  Resource :: string
  AttributeName :: string

record Attribute =
  Name :: string
  Expr :: bytes
  ExprRange :: hcl_Range
  Range :: hcl_Range
  NameRange :: hcl_Range

record AttributesResponse =
  Attributes :: "Attribute list"
  Err :: "go_error option"

record 'd EvalExprRequest =
  Expr :: bytes
  ExprRange :: hcl_Range
  Ret :: 'd

record 'v EvalExprResponse =
  Val :: 'v
  Err :: "go_error option"

record 'o EmitIssueRequest =
  Rule :: 'o
  Message :: string
  Location :: hcl_Range
  Expr :: bytes
  ExprRange :: hcl_Range

text \<open>
  Modelled from the spec: \<open>Metadata\<close> is declared outside client.go; the client reads its
  field \<open>Expr\<close>, the expression the issue is about.
\<close>

record 'n Metadata =
  Expr :: "'n hcl_Expression"

subsection \<open>parseExpression\<close>

text \<open>\<open>strings.HasSuffix(s, suffix)\<close>: \<open>len(s) >= len(suffix) && s[len(s)-len(suffix):] == suffix\<close>.\<close>

definition HasSuffix :: "string \<Rightarrow> string \<Rightarrow> bool" where
  "HasSuffix s sfx =
     (length sfx \<le> length s \<and> drop (length s - length sfx) s = sfx)"

type_synonym 'n parser = "bytes \<Rightarrow> string \<Rightarrow> hcl_Pos \<Rightarrow> 'n hcl_Expression \<times> hcl_Diagnostics"

definition parseExpression ::
  "'n parser \<Rightarrow> 'n parser \<Rightarrow> bytes \<Rightarrow> string \<Rightarrow> hcl_Pos
     \<Rightarrow> ('n hcl_Expression \<times> hcl_Diagnostics) outcome" where
  "parseExpression hclsyntax_ParseExpression json_ParseExpression src filename start =
     (if HasSuffix filename ''.tf'' then
        Returned (hclsyntax_ParseExpression src filename start)
      else if HasSuffix filename ''.tf.json'' then
        Returned (json_ParseExpression src filename start)
      else
        Panicked (PanicString (''Unexpected file: '' @ filename)))"

subsection \<open>WalkResourceAttributes\<close>

text \<open>
  \<open>rpc.Client.Call(method, args, reply)\<close> returns a non-nil error (\<open>Inl\<close>: the transport
  failed, or the host's handler returned an error) or fills the reply (\<open>Inr\<close>).
\<close>

type_synonym ('q, 'p, 'w) rpc_call = "string \<Rightarrow> 'q \<Rightarrow> 'w \<Rightarrow> (go_error + 'p) \<times> 'w"

type_synonym ('n, 'w) walker = "'n hcl_Attribute \<Rightarrow> 'w \<Rightarrow> go_error option \<times> 'w"

text \<open>The loop over \<open>response.Attributes\<close> (lines 64 to 81), one equation per iteration.\<close>

fun walk_attributes ::
  "'n parser \<Rightarrow> 'n parser \<Rightarrow> ('n, 'w) walker \<Rightarrow> Attribute list \<Rightarrow> 'w
     \<Rightarrow> go_error option outcome \<times> 'w" where
  "walk_attributes hclsyntax_ParseExpression json_ParseExpression walker [] w =
     (Returned None, w)"
| "walk_attributes hclsyntax_ParseExpression json_ParseExpression walker (attribute # rest) w =
     (case parseExpression hclsyntax_ParseExpression json_ParseExpression
             (Attribute.Expr attribute)
             (Filename (Attribute.ExprRange attribute))
             (Start (Attribute.ExprRange attribute)) of
        Panicked p \<Rightarrow> (Panicked p, w)
      | Returned (expr, diags) \<Rightarrow>
          if HasErrors diags then (Returned (Some (DiagnosticsError diags)), w)
          else
            (case walker \<lparr>hcl_Attribute.Name = Attribute.Name attribute,
                          hcl_Attribute.Expr = expr,
                          hcl_Attribute.Range = Attribute.Range attribute,
                          hcl_Attribute.NameRange = Attribute.NameRange attribute\<rparr> w of
               (Some err, w') \<Rightarrow> (Returned (Some err), w')
             | (None, w') \<Rightarrow>
                 walk_attributes hclsyntax_ParseExpression json_ParseExpression walker rest w'))"

definition WalkResourceAttributes ::
  "(AttributesRequest, AttributesResponse, 'w) rpc_call \<Rightarrow> 'n parser \<Rightarrow> 'n parser
     \<Rightarrow> string \<Rightarrow> string \<Rightarrow> ('n, 'w) walker \<Rightarrow> 'w \<Rightarrow> go_error option outcome \<times> 'w" where
  "WalkResourceAttributes Call hclsyntax_ParseExpression json_ParseExpression
       resource attributeName walker w =
     (case Call ''Plugin.Attributes''
             \<lparr>Resource = resource, AttributeName = attributeName\<rparr> w of
        (Inl err, w1) \<Rightarrow> (Returned (Some err), w1)
      | (Inr response, w1) \<Rightarrow>
          (case AttributesResponse.Err response of
             Some err \<Rightarrow> (Returned (Some err), w1)
           | None \<Rightarrow>
               walk_attributes hclsyntax_ParseExpression json_ParseExpression walker
                 (Attributes response) w1))"

subsection \<open>EvaluateExpr\<close>

text \<open>The verb \<open>%d\<close> of \<open>fmt.Sprintf\<close> on an \<open>int\<close>: decimal digits, a minus sign first if negative.\<close>

function fmt_nat :: "nat \<Rightarrow> string" where
  "fmt_nat n =
     (if n < 10 then [char_of (48 + n)]
      else fmt_nat (n div 10) @ [char_of (48 + n mod 10)])"
  by pat_completeness auto
termination
  by (relation "measure (\<lambda>n. n)") auto

declare fmt_nat.simps [simp del]

definition fmt_d :: "int \<Rightarrow> string" where
  "fmt_d i = (if i < 0 then CHR ''-'' # fmt_nat (nat (- i)) else fmt_nat (nat i))"

text \<open>
  \<open>ReadFile\<close> reads a file of the world; \<open>SliceBytes\<close> is the method of \<open>hcl.Range\<close>
  (\<open>Range_SliceBytes\<close> above);
  \<open>FromCtyValue\<close> writes the converted value through the pointer \<open>ret\<close> and returns an
  error or nil: it maps the destination's content to the error and the new content.
  The result of \<open>EvaluateExpr\<close> is the returned error, the destination's content and
  the world.
\<close>

type_synonym 'w read_file = "string \<Rightarrow> 'w \<Rightarrow> go_error + bytes"

type_synonym slice_bytes = "hcl_Range \<Rightarrow> bytes \<Rightarrow> bytes"

text \<open>
  The method \<open>Range.SliceBytes\<close> as the hcl package defines it: the start and end byte
  offsets are each brought into the bounds of \<open>b\<close> (below 0 becomes 0, above \<open>len(b)\<close>
  becomes \<open>len(b)\<close>), an end before the start becomes the start, and the result is
  \<open>b[start:end]\<close>. It never panics; outside the bounds it returns the overlap only.
\<close>

definition Range_SliceBytes :: slice_bytes where
  "Range_SliceBytes r b =
     (let start = Byte (Start r);
          end' = Byte (End r);
          start = (if start < 0 then 0
                   else if start > int (length b) then int (length b) else start);
          end' = (if end' < 0 then 0
                  else if end' > int (length b) then int (length b) else end');
          end' = (if end' < start then start else end')
      in take (nat end' - nat start) (drop (nat start) b))"

definition EvaluateExpr ::
  "'w read_file \<Rightarrow> slice_bytes \<Rightarrow> ('d EvalExprRequest, 'v EvalExprResponse, 'w) rpc_call
     \<Rightarrow> ('v \<Rightarrow> 'd \<Rightarrow> go_error option \<times> 'd) \<Rightarrow> 'n hcl_Expression \<Rightarrow> 'd \<Rightarrow> 'w
     \<Rightarrow> (go_error option \<times> 'd) \<times> 'w" where
  "EvaluateExpr ReadFile SliceBytes Call FromCtyValue expr ret w =
     (case ReadFile (Filename (hcl_Expression.Range expr)) w of
        Inl err \<Rightarrow> ((Some err, ret), w)
      | Inr src \<Rightarrow>
          (case Call ''Plugin.EvalExpr''
                  \<lparr>EvalExprRequest.Expr = SliceBytes (hcl_Expression.Range expr) src,
                   EvalExprRequest.ExprRange = hcl_Expression.Range expr,
                   Ret = ret\<rparr> w of
             (Inl err, w1) \<Rightarrow> ((Some err, ret), w1)
           | (Inr response, w1) \<Rightarrow>
               (case EvalExprResponse.Err response of
                  Some err \<Rightarrow> ((Some err, ret), w1)
                | None \<Rightarrow>
                    (case FromCtyValue (Val response) ret of
                       (Some err, ret') \<Rightarrow>
                         ((Some (ErrorPointer
                             (Error TypeMismatchError ErrorLevel
                                (''Invalid type expression in ''
                                   @ Filename (hcl_Expression.Range expr) @ '':''
                                   @ fmt_d (Line (Start (hcl_Expression.Range expr))))
                                (Some err))), ret'), w1)
                     | (None, ret') \<Rightarrow> ((None, ret'), w1)))))"

subsection \<open>EmitIssue\<close>

text \<open>
  \<open>newObjectFromRule\<close> is declared outside client.go and is a parameter. The reply of
  the call is a \<open>new(interface{})\<close> that the client never reads: any value \<open>'p\<close>.
\<close>

definition EmitIssue ::
  "'w read_file \<Rightarrow> slice_bytes \<Rightarrow> ('o EmitIssueRequest, 'p, 'w) rpc_call \<Rightarrow> ('r \<Rightarrow> 'o)
     \<Rightarrow> 'r \<Rightarrow> string \<Rightarrow> hcl_Range \<Rightarrow> 'n Metadata \<Rightarrow> 'w \<Rightarrow> go_error option \<times> 'w" where
  "EmitIssue ReadFile SliceBytes Call newObjectFromRule rule message location meta w =
     (case ReadFile (Filename (hcl_Expression.Range (Metadata.Expr meta))) w of
        Inl err \<Rightarrow> (Some err, w)
      | Inr src \<Rightarrow>
          (case Call ''Plugin.EmitIssue''
                  \<lparr>Rule = newObjectFromRule rule,
                   Message = message,
                   Location = location,
                   EmitIssueRequest.Expr =
                     SliceBytes (hcl_Expression.Range (Metadata.Expr meta)) src,
                   EmitIssueRequest.ExprRange = hcl_Expression.Range (Metadata.Expr meta)\<rparr> w of
             (Inl err, w1) \<Rightarrow> (Some err, w1)
           | (Inr reply, w1) \<Rightarrow> (None, w1)))"

subsection \<open>EnsureNoError\<close>

text \<open>
  The type assertion \<open>err.(Error)\<close> holds only of the dynamic type \<open>Error\<close>
  (\<open>ErrorValue\<close>); every other non-nil error takes the \<open>else\<close> branch.
\<close>

fun EnsureNoError ::
  "go_error option \<Rightarrow> ('w \<Rightarrow> go_error option \<times> 'w) \<Rightarrow> 'w \<Rightarrow> go_error option outcome \<times> 'w" where
  "EnsureNoError None proc w = (case proc w of (r, w') \<Rightarrow> (Returned r, w'))"
| "EnsureNoError (Some (ErrorValue appErr)) proc w =
     (case Level appErr of
        WarningLevel \<Rightarrow> (Returned None, w)
      | ErrorLevel \<Rightarrow> (Returned (Some (ErrorValue appErr)), w)
      | UnknownLevel n \<Rightarrow> (Panicked (PanicError appErr), w))"
| "EnsureNoError (Some err) proc w = (Returned (Some err), w)"

subsection \<open>Observing the calls an operation makes\<close>

text \<open>
  To say how often and with what a closure or the RPC channel is called, the world is
  paired with a log: \<open>recording f\<close> behaves as \<open>f\<close> on the world and appends its argument
  to the log, \<open>passing f\<close> behaves as \<open>f\<close> and leaves the log alone.
\<close>

definition recording :: "('a \<Rightarrow> 'w \<Rightarrow> 'b \<times> 'w) \<Rightarrow> 'a \<Rightarrow> 'a list \<times> 'w \<Rightarrow> 'b \<times> ('a list \<times> 'w)" where
  "recording f a lw =
     (case f a (snd lw) of (r, w') \<Rightarrow> (r, (fst lw @ [a], w')))"

definition passing :: "('a \<Rightarrow> 'w \<Rightarrow> 'b \<times> 'w) \<Rightarrow> 'a \<Rightarrow> 'l \<times> 'w \<Rightarrow> 'b \<times> ('l \<times> 'w)" where
  "passing f a lw = (case f a (snd lw) of (r, w') \<Rightarrow> (r, (fst lw, w')))"

definition recording_Call ::
  "('q, 'p, 'w) rpc_call \<Rightarrow> ('q, 'p, (string \<times> 'q) list \<times> 'w) rpc_call" where
  "recording_Call Call method args = recording (\<lambda>(m, q). Call m q) (method, args)"

definition passing_Call :: "('q, 'p, 'w) rpc_call \<Rightarrow> ('q, 'p, 'l \<times> 'w) rpc_call" where
  "passing_Call Call method args = passing (\<lambda>(m, q). Call m q) (method, args)"

definition reading :: "'w read_file \<Rightarrow> ('l \<times> 'w) read_file" where
  "reading ReadFile name lw = ReadFile name (snd lw)"

definition counting :: "('w \<Rightarrow> 'b \<times> 'w) \<Rightarrow> nat \<times> 'w \<Rightarrow> 'b \<times> (nat \<times> 'w)" where
  "counting proc nw = (case proc (snd nw) of (r, w') \<Rightarrow> (r, (Suc (fst nw), w')))"

subsection \<open>What a walk delivers\<close>

text \<open>
  \<open>decoded\<close> is the \<open>hcl.Attribute\<close> that the loop builds from a wire attribute when its
  expression parses without an error diagnostic. \<open>visit_results walker hs w\<close> lists what
  the walker returns when it is called on \<open>hs\<close> in order, starting in world \<open>w\<close>, and
  \<open>visited walker hs w\<close> is the world after these calls.
\<close>

definition decoded :: "'n parser \<Rightarrow> 'n parser \<Rightarrow> Attribute \<Rightarrow> 'n hcl_Attribute option" where
  "decoded hclsyntax_ParseExpression json_ParseExpression attribute =
     (case parseExpression hclsyntax_ParseExpression json_ParseExpression
             (Attribute.Expr attribute)
             (Filename (Attribute.ExprRange attribute))
             (Start (Attribute.ExprRange attribute)) of
        Panicked p \<Rightarrow> None
      | Returned (expr, diags) \<Rightarrow>
          if HasErrors diags then None
          else Some \<lparr>hcl_Attribute.Name = Attribute.Name attribute,
                     hcl_Attribute.Expr = expr,
                     hcl_Attribute.Range = Attribute.Range attribute,
                     hcl_Attribute.NameRange = Attribute.NameRange attribute\<rparr>)"

fun visit_results :: "('n, 'w) walker \<Rightarrow> 'n hcl_Attribute list \<Rightarrow> 'w \<Rightarrow> go_error option list" where
  "visit_results walker [] w = []"
| "visit_results walker (h # hs) w = fst (walker h w) # visit_results walker hs (snd (walker h w))"

fun visited :: "('n, 'w) walker \<Rightarrow> 'n hcl_Attribute list \<Rightarrow> 'w \<Rightarrow> 'w" where
  "visited walker [] w = w"
| "visited walker (h # hs) w = visited walker hs (snd (walker h w))"

subsection \<open>Sample values\<close>

definition sample_Range :: "string \<Rightarrow> hcl_Range" where
  "sample_Range name =
     \<lparr>Filename = name,
      Start = \<lparr>Line = 3, Column = 5, Byte = 4\<rparr>,
      End = \<lparr>Line = 3, Column = 10, Byte = 9\<rparr>\<rparr>"

definition sample_parser :: "string \<Rightarrow> string parser" where
  "sample_parser syntax src filename start =
     (\<lparr>hcl_Expression.Range = \<lparr>Filename = filename, Start = start, End = start\<rparr>,
       Node = syntax @ src\<rparr>,
      if src = [] then [\<lparr>Severity = DiagError, Summary = ''Missing expression'', Detail = []\<rparr>]
      else [])"

definition sample_Attribute :: "string \<Rightarrow> string \<Rightarrow> bytes \<Rightarrow> Attribute" where
  "sample_Attribute name file src =
     \<lparr>Attribute.Name = name, Attribute.Expr = src,
      Attribute.ExprRange = sample_Range file,
      Attribute.Range = sample_Range file,
      Attribute.NameRange = sample_Range file\<rparr>"

definition sample_hcl_Attribute :: "string \<Rightarrow> string \<Rightarrow> string \<Rightarrow> string hcl_Attribute" where
  "sample_hcl_Attribute name file node =
     \<lparr>hcl_Attribute.Name = name,
      hcl_Attribute.Expr =
        \<lparr>hcl_Expression.Range =
           \<lparr>Filename = file, Start = Start (sample_Range file), End = Start (sample_Range file)\<rparr>,
         Node = node\<rparr>,
      hcl_Attribute.Range = sample_Range file,
      hcl_Attribute.NameRange = sample_Range file\<rparr>"

definition sample_Attributes_Call ::
  "Attribute list \<Rightarrow> go_error option \<Rightarrow> (AttributesRequest, AttributesResponse, nat) rpc_call" where
  "sample_Attributes_Call attributes err method args w =
     (Inr \<lparr>Attributes = attributes, AttributesResponse.Err = err\<rparr>, w)"

definition sample_walker :: "(string, nat) walker" where
  "sample_walker attr w =
     (if hcl_Attribute.Name attr = ''ami'' then Some (ForeignError ''stop'') else None, Suc w)"

definition sample_proc :: "nat \<Rightarrow> go_error option \<times> nat" where
  "sample_proc w = (if w = 0 then None else Some (ForeignError ''busy''), w + 10)"

definition sample_Expression :: "string \<Rightarrow> string hcl_Expression" where
  "sample_Expression file = \<lparr>hcl_Expression.Range = sample_Range file, Node = ''var.x''\<rparr>"

definition sample_ReadFile :: "nat read_file" where
  "sample_ReadFile name w =
     (if name = ''main.tf'' then Inr ''a = var.x + 1'' else Inl (ForeignError ''no such file''))"

definition sample_truncated_ReadFile :: "nat read_file" where
  "sample_truncated_ReadFile name w =
     (if name = ''main.tf'' then Inr ''a = var'' else Inl (ForeignError ''no such file''))"

definition sample_SliceBytes :: slice_bytes where
  "sample_SliceBytes r b =
     take (nat (Byte (End r)) - nat (Byte (Start r))) (drop (nat (Byte (Start r))) b)"

definition sample_EvalExpr_Call ::
  "string \<Rightarrow> go_error option \<Rightarrow> (nat EvalExprRequest, string EvalExprResponse, nat) rpc_call" where
  "sample_EvalExpr_Call val err method args w =
     (Inr \<lparr>Val = val, EvalExprResponse.Err = err\<rparr>, Suc w)"

definition sample_FromCtyValue :: "string \<Rightarrow> nat \<Rightarrow> go_error option \<times> nat" where
  "sample_FromCtyValue val ret =
     (if val = ''12'' then (None, 12) else (Some (ForeignError ''number required''), ret))"

definition sample_EmitIssue_Call ::
  "go_error + go_error option \<Rightarrow> (string EmitIssueRequest, go_error option, nat) rpc_call" where
  "sample_EmitIssue_Call result method args w = (result, Suc w)"

definition sample_newObjectFromRule :: "string \<Rightarrow> string" where
  "sample_newObjectFromRule rule = ''rule:'' @ rule"

definition sample_Metadata :: "string \<Rightarrow> string Metadata" where
  "sample_Metadata file = \<lparr>Metadata.Expr = sample_Expression file\<rparr>"

section \<open>Properties\<close>

subsection \<open>Filename suffixes\<close>

lemma HasSuffix_iff: "HasSuffix s t \<longleftrightarrow> suffix t s"
proof
  assume "HasSuffix s t"
  then have "s = take (length s - length t) s @ t"
    by (metis HasSuffix_def append_take_drop_id)
  then show "suffix t s" by (metis suffixI)
next
  assume "suffix t s"
  then obtain zs where "s = zs @ t" by (auto simp: suffix_def)
  then show "HasSuffix s t" by (simp add: HasSuffix_def)
qed

lemma tf_json_not_tf: "suffix ''.tf.json'' f \<Longrightarrow> \<not> suffix ''.tf'' f"
proof
  assume a: "suffix ''.tf.json'' f" and b: "suffix ''.tf'' f"
  from a obtain zs where "f = zs @ ''.tf.json''" by (auto simp: suffix_def)
  moreover from b obtain ys where "f = ys @ ''.tf''" by (auto simp: suffix_def)
  ultimately have "last (zs @ ''.tf.json'') = last (ys @ ''.tf'')" by simp
  then show False by simp
qed

text \<open>
  C6. \<open>parseExpression\<close> dispatches on the filename suffix alone: a filename ending in
  \<open>.tf\<close> goes to the native-syntax parser, one ending in \<open>.tf.json\<close> to the JSON parser,
  each with the same bytes, filename and start position; any other filename panics and
  returns nothing.
\<close>

theorem parseExpression_dispatch:
  "(suffix ''.tf'' filename \<longrightarrow>
      parseExpression syn js src filename start = Returned (syn src filename start))
   \<and> (suffix ''.tf.json'' filename \<longrightarrow>
      parseExpression syn js src filename start = Returned (js src filename start))
   \<and> (\<not> suffix ''.tf'' filename \<and> \<not> suffix ''.tf.json'' filename \<longrightarrow>
      parseExpression syn js src filename start
        = Panicked (PanicString (''Unexpected file: '' @ filename)))"
  using tf_json_not_tf [of filename]
  by (auto simp: parseExpression_def HasSuffix_iff)

theorem parseExpression_dispatch_witness:
  "suffix ''.tf'' ''main.tf''
   \<and> parseExpression (sample_parser ''hcl:'') (sample_parser ''json:'') ''1 + 2'' ''main.tf''
        (Start (sample_Range ''main.tf''))
      = Returned (sample_parser ''hcl:'' ''1 + 2'' ''main.tf'' (Start (sample_Range ''main.tf'')))
   \<and> suffix ''.tf.json'' ''main.tf.json''
   \<and> parseExpression (sample_parser ''hcl:'') (sample_parser ''json:'') ''3'' ''main.tf.json''
        (Start (sample_Range ''main.tf.json''))
      = Returned (sample_parser ''json:'' ''3'' ''main.tf.json''
          (Start (sample_Range ''main.tf.json'')))
   \<and> \<not> suffix ''.tf'' ''main.tfvars'' \<and> \<not> suffix ''.tf.json'' ''main.tfvars''
   \<and> parseExpression (sample_parser ''hcl:'') (sample_parser ''json:'') ''3'' ''main.tfvars''
        (Start (sample_Range ''main.tfvars''))
      = Panicked (PanicString ''Unexpected file: main.tfvars'')"
proof -
  have a: "suffix ''.tf'' ''main.tf''" by code_simp
  have b: "suffix ''.tf.json'' ''main.tf.json''" by code_simp
  have c: "\<not> suffix ''.tf'' ''main.tfvars'' \<and> \<not> suffix ''.tf.json'' ''main.tfvars''"
    by code_simp
  from a b c
    parseExpression_dispatch [of "''main.tf''" "sample_parser ''hcl:''" "sample_parser ''json:''"
      "''1 + 2''" "Start (sample_Range ''main.tf'')"]
    parseExpression_dispatch [of "''main.tf.json''" "sample_parser ''hcl:''"
      "sample_parser ''json:''" "''3''" "Start (sample_Range ''main.tf.json'')"]
    parseExpression_dispatch [of "''main.tfvars''" "sample_parser ''hcl:''"
      "sample_parser ''json:''" "''3''" "Start (sample_Range ''main.tfvars'')"]
  show ?thesis by simp
qed

subsection \<open>The attribute walk\<close>

lemma decodedD:
  "decoded syn js a = Some h \<Longrightarrow>
     \<exists>expr diags. parseExpression syn js (Attribute.Expr a) (Filename (Attribute.ExprRange a))
            (Start (Attribute.ExprRange a)) = Returned (expr, diags) \<and> \<not> HasErrors diags
       \<and> h = \<lparr>hcl_Attribute.Name = Attribute.Name a, hcl_Attribute.Expr = expr,
               hcl_Attribute.Range = Attribute.Range a,
               hcl_Attribute.NameRange = Attribute.NameRange a\<rparr>"
  by (auto simp: decoded_def split: outcome.splits prod.splits if_splits)

lemma walk_step_ok:
  assumes "decoded syn js a = Some h" and "fst (walker h w) = None"
  shows "walk_attributes syn js (recording walker) (a # as) (log, w)
           = walk_attributes syn js (recording walker) as (log @ [h], snd (walker h w))"
  using decodedD [OF assms(1)] assms(2)
  by (cases "walker h w") (auto simp: recording_def)

lemma walk_step_err:
  assumes "decoded syn js a = Some h" and "fst (walker h w) = Some err"
  shows "walk_attributes syn js (recording walker) (a # as) (log, w)
           = (Returned (Some err), (log @ [h], snd (walker h w)))"
  using decodedD [OF assms(1)] assms(2)
  by (cases "walker h w") (auto simp: recording_def)

lemma walk_all_ok:
  "map (decoded syn js) as = map Some hs \<Longrightarrow>
   visit_results walker hs w = replicate (length hs) None \<Longrightarrow>
   walk_attributes syn js (recording walker) as (log, w)
     = (Returned None, (log @ hs, visited walker hs w))"
proof (induction as arbitrary: hs log w)
  case Nil
  then show ?case by simp
next
  case (Cons a as)
  then obtain h hs' where hs: "hs = h # hs'" by (cases hs) auto
  with Cons.prems have d: "decoded syn js a = Some h"
    and m: "map (decoded syn js) as = map Some hs'"
    and r: "fst (walker h w) = None"
    and rs: "visit_results walker hs' (snd (walker h w)) = replicate (length hs') None"
    by auto
  show ?case
    unfolding hs walk_step_ok [where walker = walker, OF d r] Cons.IH [OF m rs]
    by simp
qed

lemma walk_stops:
  "map (decoded syn js) as = map Some hs \<Longrightarrow>
   take (Suc k) (visit_results walker hs w) = replicate k None @ [Some err] \<Longrightarrow>
   walk_attributes syn js (recording walker) as (log, w)
     = (Returned (Some err), (log @ take (Suc k) hs, visited walker (take (Suc k) hs) w))"
proof (induction as arbitrary: hs k log w)
  case Nil
  then show ?case by simp
next
  case (Cons a as)
  then obtain h hs' where hs: "hs = h # hs'" by (cases hs) auto
  with Cons.prems have d: "decoded syn js a = Some h"
    and m: "map (decoded syn js) as = map Some hs'"
    by auto
  show ?case
  proof (cases k)
    case 0
    with Cons.prems(2) hs have r: "fst (walker h w) = Some err" by simp
    show ?thesis
      unfolding hs 0 walk_step_err [where walker = walker, OF d r] by simp
  next
    case (Suc j)
    with Cons.prems(2) hs have r: "fst (walker h w) = None"
      and rs: "take (Suc j) (visit_results walker hs' (snd (walker h w)))
                 = replicate j None @ [Some err]"
      by auto
    show ?thesis
      unfolding hs Suc walk_step_ok [where walker = walker, OF d r] Cons.IH [OF m rs]
      by simp
  qed
qed

text \<open>
  C2. The response carries the attributes \<open>Attributes response\<close>, no application error, and
  every attribute decodes (to \<open>hs\<close>, in order). If the walker returns nil on every call, it
  is called on exactly \<open>hs\<close>, in that order, and the walk returns nil. If its first non-nil
  result is on its \<open>k\<close>-th call, it is called on exactly the first \<open>k\<close> of \<open>hs\<close> and the
  walk returns that very error. \<open>hs\<close> has one element per attribute of the response.
\<close>

theorem walk_visits_in_order:
  assumes call: "Call ''Plugin.Attributes''
                   \<lparr>Resource = resource, AttributeName = attributeName\<rparr> w = (Inr response, w1)"
    and noerr: "AttributesResponse.Err response = None"
    and dec: "map (decoded syn js) (Attributes response) = map Some hs"
  shows "(visit_results walker hs w1 = replicate (length hs) None \<longrightarrow>
            WalkResourceAttributes (passing_Call Call) syn js resource attributeName
                (recording walker) ([], w)
              = (Returned None, (hs, visited walker hs w1)))
       \<and> (1 \<le> k \<and> k \<le> length hs
            \<and> take k (visit_results walker hs w1) = replicate (k - 1) None @ [Some err] \<longrightarrow>
            WalkResourceAttributes (passing_Call Call) syn js resource attributeName
                (recording walker) ([], w)
              = (Returned (Some err), (take k hs, visited walker (take k hs) w1))
            \<and> length (take k hs) = k)
       \<and> length hs = length (Attributes response)"
proof -
  have start: "WalkResourceAttributes (passing_Call Call) syn js resource attributeName
                   (recording walker) ([], w)
                 = walk_attributes syn js (recording walker) (Attributes response) ([], w1)"
    by (simp add: WalkResourceAttributes_def passing_Call_def passing_def call noerr)
  show ?thesis
  proof (intro conjI impI)
    assume "visit_results walker hs w1 = replicate (length hs) None"
    from walk_all_ok [OF dec this, of "[]"] start
    show "WalkResourceAttributes (passing_Call Call) syn js resource attributeName
              (recording walker) ([], w) = (Returned None, (hs, visited walker hs w1))"
      by simp
  next
    assume a: "1 \<le> k \<and> k \<le> length hs
        \<and> take k (visit_results walker hs w1) = replicate (k - 1) None @ [Some err]"
    then obtain j where k: "k = Suc j" by (cases k) auto
    with a have "take (Suc j) (visit_results walker hs w1) = replicate j None @ [Some err]"
      by simp
    from walk_stops [OF dec this, of "[]"] start k
    show "WalkResourceAttributes (passing_Call Call) syn js resource attributeName
              (recording walker) ([], w)
            = (Returned (Some err), (take k hs, visited walker (take k hs) w1))"
      by simp
  next
    assume "1 \<le> k \<and> k \<le> length hs
        \<and> take k (visit_results walker hs w1) = replicate (k - 1) None @ [Some err]"
    then show "length (take k hs) = k" by simp
  next
    from dec have "length (map Some hs) = length (map (decoded syn js) (Attributes response))"
      by simp
    then show "length hs = length (Attributes response)" by simp
  qed
qed

theorem walk_visits_in_order_witness:
  "WalkResourceAttributes
       (passing_Call (sample_Attributes_Call
          [sample_Attribute ''type'' ''main.tf'' ''t2'', sample_Attribute ''size'' ''a.tf.json'' ''8''] None))
       (sample_parser ''hcl:'') (sample_parser ''json:'') ''aws_instance'' ''x''
       (recording sample_walker) ([], 0)
     = (Returned None,
        ([sample_hcl_Attribute ''type'' ''main.tf'' ''hcl:t2'',
          sample_hcl_Attribute ''size'' ''a.tf.json'' ''json:8''], 2))
   \<and> WalkResourceAttributes
       (passing_Call (sample_Attributes_Call
          [sample_Attribute ''type'' ''main.tf'' ''t2'', sample_Attribute ''ami'' ''main.tf'' ''a1'',
           sample_Attribute ''size'' ''a.tf.json'' ''8''] None))
       (sample_parser ''hcl:'') (sample_parser ''json:'') ''aws_instance'' ''x''
       (recording sample_walker) ([], 0)
     = (Returned (Some (ForeignError ''stop'')),
        ([sample_hcl_Attribute ''type'' ''main.tf'' ''hcl:t2'',
          sample_hcl_Attribute ''ami'' ''main.tf'' ''hcl:a1''], 2))"
proof -
  let ?as1 = "[sample_Attribute ''type'' ''main.tf'' ''t2'', sample_Attribute ''size'' ''a.tf.json'' ''8'']"
  let ?hs1 = "[sample_hcl_Attribute ''type'' ''main.tf'' ''hcl:t2'',
               sample_hcl_Attribute ''size'' ''a.tf.json'' ''json:8'']"
  let ?as2 = "[sample_Attribute ''type'' ''main.tf'' ''t2'', sample_Attribute ''ami'' ''main.tf'' ''a1'',
               sample_Attribute ''size'' ''a.tf.json'' ''8'']"
  let ?hs2 = "[sample_hcl_Attribute ''type'' ''main.tf'' ''hcl:t2'',
               sample_hcl_Attribute ''ami'' ''main.tf'' ''hcl:a1'',
               sample_hcl_Attribute ''size'' ''a.tf.json'' ''json:8'']"
  have c1: "sample_Attributes_Call ?as1 None ''Plugin.Attributes''
              \<lparr>Resource = ''aws_instance'', AttributeName = ''x''\<rparr> 0
            = (Inr \<lparr>Attributes = ?as1, AttributesResponse.Err = None\<rparr>, 0)"
    by (simp add: sample_Attributes_Call_def)
  have c2: "sample_Attributes_Call ?as2 None ''Plugin.Attributes''
              \<lparr>Resource = ''aws_instance'', AttributeName = ''x''\<rparr> 0
            = (Inr \<lparr>Attributes = ?as2, AttributesResponse.Err = None\<rparr>, 0)"
    by (simp add: sample_Attributes_Call_def)
  have d1: "map (decoded (sample_parser ''hcl:'') (sample_parser ''json:''))
              (Attributes \<lparr>Attributes = ?as1, AttributesResponse.Err = None\<rparr>) = map Some ?hs1"
    by code_simp
  have d2: "map (decoded (sample_parser ''hcl:'') (sample_parser ''json:''))
              (Attributes \<lparr>Attributes = ?as2, AttributesResponse.Err = None\<rparr>) = map Some ?hs2"
    by code_simp
  have r1: "visit_results sample_walker ?hs1 0 = replicate (length ?hs1) None"
    by code_simp
  have r2: "1 \<le> (2::nat) \<and> 2 \<le> length ?hs2 \<and>
            take 2 (visit_results sample_walker ?hs2 0)
              = replicate (2 - 1) None @ [Some (ForeignError ''stop'')]"
    by code_simp
  have v1: "visited sample_walker ?hs1 0 = 2" by code_simp
  have v2: "take 2 ?hs2 = [sample_hcl_Attribute ''type'' ''main.tf'' ''hcl:t2'',
               sample_hcl_Attribute ''ami'' ''main.tf'' ''hcl:a1'']" by simp
  have v3: "visited sample_walker (take 2 ?hs2) 0 = 2" by code_simp
  have n1: "AttributesResponse.Err \<lparr>Attributes = ?as1, AttributesResponse.Err = None\<rparr> = None"
    by simp
  have n2: "AttributesResponse.Err \<lparr>Attributes = ?as2, AttributesResponse.Err = None\<rparr> = None"
    by simp
  from walk_visits_in_order [where Call = "sample_Attributes_Call ?as1 None"
      and walker = sample_walker, OF c1 n1 d1] r1 v1
  have "WalkResourceAttributes (passing_Call (sample_Attributes_Call ?as1 None))
          (sample_parser ''hcl:'') (sample_parser ''json:'') ''aws_instance'' ''x''
          (recording sample_walker) ([], 0) = (Returned None, (?hs1, 2))"
    by simp
  moreover
  from walk_visits_in_order [where Call = "sample_Attributes_Call ?as2 None"
      and walker = sample_walker and k = 2 and err = "ForeignError ''stop''", OF c2 n2 d2]
    r2 v2 v3
  have "WalkResourceAttributes (passing_Call (sample_Attributes_Call ?as2 None))
          (sample_parser ''hcl:'') (sample_parser ''json:'') ''aws_instance'' ''x''
          (recording sample_walker) ([], 0)
        = (Returned (Some (ForeignError ''stop'')),
           ([sample_hcl_Attribute ''type'' ''main.tf'' ''hcl:t2'',
             sample_hcl_Attribute ''ami'' ''main.tf'' ''hcl:a1''], 2))"
    by simp
  ultimately show ?thesis by simp
qed

lemma walk_diagnostics:
  "map (decoded syn js) pre = map Some hs \<Longrightarrow>
   visit_results walker hs w = replicate (length hs) None \<Longrightarrow>
   parseExpression syn js (Attribute.Expr a) (Filename (Attribute.ExprRange a))
       (Start (Attribute.ExprRange a)) = Returned (expr, diags) \<Longrightarrow>
   HasErrors diags \<Longrightarrow>
   walk_attributes syn js (recording walker) (pre @ a # post) (log, w)
     = (Returned (Some (DiagnosticsError diags)), (log @ hs, visited walker hs w))"
proof (induction pre arbitrary: hs log w)
  case Nil
  then show ?case by simp
next
  case (Cons p pre)
  then obtain h hs' where hs: "hs = h # hs'" by (cases hs) auto
  with Cons.prems have d: "decoded syn js p = Some h"
    and m: "map (decoded syn js) pre = map Some hs'"
    and r: "fst (walker h w) = None"
    and rs: "visit_results walker hs' (snd (walker h w)) = replicate (length hs') None"
    by auto
  show ?case
    unfolding hs append_Cons walk_step_ok [where walker = walker, OF d r]
      Cons.IH [OF m rs Cons.prems(3) Cons.prems(4)]
    by simp
qed

text \<open>
  C5. When the response has its application error set, the walk returns that error at
  once: the walker is called on nothing (the log of its calls stays empty), however many
  attributes the response also carries.
\<close>

theorem walk_application_error:
  assumes call: "Call ''Plugin.Attributes''
                   \<lparr>Resource = resource, AttributeName = attributeName\<rparr> w = (Inr response, w1)"
    and apperr: "AttributesResponse.Err response = Some err"
  shows "WalkResourceAttributes (passing_Call Call) syn js resource attributeName
             (recording walker) ([], w)
           = (Returned (Some err), ([], w1))"
  by (simp add: WalkResourceAttributes_def passing_Call_def passing_def call apperr)

theorem walk_application_error_witness:
  "WalkResourceAttributes
       (passing_Call (sample_Attributes_Call
          [sample_Attribute ''type'' ''main.tf'' ''t2'', sample_Attribute ''size'' ''a.tf.json'' ''8'']
          (Some (ErrorValue (Error (OtherCode 0) ErrorLevel ''no such resource'' None)))))
       (sample_parser ''hcl:'') (sample_parser ''json:'') ''aws_instance'' ''x''
       (recording sample_walker) ([], 0)
     = (Returned (Some (ErrorValue (Error (OtherCode 0) ErrorLevel ''no such resource'' None))),
        ([], 0))"
proof -
  let ?as = "[sample_Attribute ''type'' ''main.tf'' ''t2'', sample_Attribute ''size'' ''a.tf.json'' ''8'']"
  let ?e = "ErrorValue (Error (OtherCode 0) ErrorLevel ''no such resource'' None)"
  have c: "sample_Attributes_Call ?as (Some ?e) ''Plugin.Attributes''
              \<lparr>Resource = ''aws_instance'', AttributeName = ''x''\<rparr> 0
            = (Inr \<lparr>Attributes = ?as, AttributesResponse.Err = Some ?e\<rparr>, 0)"
    by (simp add: sample_Attributes_Call_def)
  have n: "AttributesResponse.Err \<lparr>Attributes = ?as, AttributesResponse.Err = Some ?e\<rparr> = Some ?e"
    by simp
  show ?thesis
    by (rule walk_application_error [where Call = "sample_Attributes_Call ?as (Some ?e)", OF c n])
qed

text \<open>
  C8. The attributes before \<open>attribute\<close> decode and the walker accepts them; decoding
  \<open>attribute\<close> gives diagnostics with errors. The walk then returns these diagnostics as
  its error, the walker has been called on the earlier attributes only, never on
  \<open>attribute\<close> or a later one, and the result says nothing else about the earlier calls.
\<close>

theorem walk_aborts_on_diagnostics:
  assumes call: "Call ''Plugin.Attributes''
                   \<lparr>Resource = resource, AttributeName = attributeName\<rparr> w = (Inr response, w1)"
    and noerr: "AttributesResponse.Err response = None"
    and split: "Attributes response = pre @ attribute # post"
    and dec: "map (decoded syn js) pre = map Some hs"
    and vis: "visit_results walker hs w1 = replicate (length hs) None"
    and parse: "parseExpression syn js (Attribute.Expr attribute)
                  (Filename (Attribute.ExprRange attribute))
                  (Start (Attribute.ExprRange attribute)) = Returned (expr, diags)"
    and bad: "HasErrors diags"
  shows "WalkResourceAttributes (passing_Call Call) syn js resource attributeName
             (recording walker) ([], w)
           = (Returned (Some (DiagnosticsError diags)), (hs, visited walker hs w1))"
proof -
  have "WalkResourceAttributes (passing_Call Call) syn js resource attributeName
            (recording walker) ([], w)
          = walk_attributes syn js (recording walker) (pre @ attribute # post) ([], w1)"
    by (simp add: WalkResourceAttributes_def passing_Call_def passing_def call noerr split)
  also have "\<dots> = (Returned (Some (DiagnosticsError diags)), ([] @ hs, visited walker hs w1))"
    by (rule walk_diagnostics [OF dec vis parse bad])
  finally show ?thesis by simp
qed

theorem walk_aborts_on_diagnostics_witness:
  "HasErrors (snd (sample_parser ''hcl:'' [] ''main.tf'' (Start (sample_Range ''main.tf''))))
   \<and> WalkResourceAttributes
       (passing_Call (sample_Attributes_Call
          [sample_Attribute ''type'' ''main.tf'' ''t2'', sample_Attribute ''size'' ''main.tf'' [],
           sample_Attribute ''disk'' ''main.tf'' ''8''] None))
       (sample_parser ''hcl:'') (sample_parser ''json:'') ''aws_instance'' ''x''
       (recording sample_walker) ([], 0)
     = (Returned (Some (DiagnosticsError
          [\<lparr>Severity = DiagError, Summary = ''Missing expression'', Detail = []\<rparr>])),
        ([sample_hcl_Attribute ''type'' ''main.tf'' ''hcl:t2''], 1))"
proof -
  let ?pre = "[sample_Attribute ''type'' ''main.tf'' ''t2'']"
  let ?a = "sample_Attribute ''size'' ''main.tf'' []"
  let ?post = "[sample_Attribute ''disk'' ''main.tf'' ''8'']"
  let ?as = "[sample_Attribute ''type'' ''main.tf'' ''t2'', sample_Attribute ''size'' ''main.tf'' [],
           sample_Attribute ''disk'' ''main.tf'' ''8'']"
  let ?hs = "[sample_hcl_Attribute ''type'' ''main.tf'' ''hcl:t2'']"
  let ?diags = "[\<lparr>Severity = DiagError, Summary = ''Missing expression'', Detail = []\<rparr>]"
  have c: "sample_Attributes_Call ?as None ''Plugin.Attributes''
              \<lparr>Resource = ''aws_instance'', AttributeName = ''x''\<rparr> 0
            = (Inr \<lparr>Attributes = ?as, AttributesResponse.Err = None\<rparr>, 0)"
    by (simp add: sample_Attributes_Call_def)
  have n: "AttributesResponse.Err \<lparr>Attributes = ?as, AttributesResponse.Err = None\<rparr> = None"
    by simp
  have s: "Attributes \<lparr>Attributes = ?as, AttributesResponse.Err = None\<rparr> = ?pre @ ?a # ?post"
    by simp
  have d: "map (decoded (sample_parser ''hcl:'') (sample_parser ''json:'')) ?pre = map Some ?hs"
    by code_simp
  have v: "visit_results sample_walker ?hs 0 = replicate (length ?hs) None"
    by code_simp
  have p: "parseExpression (sample_parser ''hcl:'') (sample_parser ''json:'')
             (Attribute.Expr ?a) (Filename (Attribute.ExprRange ?a))
             (Start (Attribute.ExprRange ?a))
           = Returned (fst (sample_parser ''hcl:'' [] ''main.tf'' (Start (sample_Range ''main.tf''))),
                       ?diags)"
    by code_simp
  have b: "HasErrors ?diags" by code_simp
  have b': "HasErrors (snd (sample_parser ''hcl:'' [] ''main.tf'' (Start (sample_Range ''main.tf''))))"
    by code_simp
  have w: "visited sample_walker ?hs 0 = 1" by code_simp
  from walk_aborts_on_diagnostics [where Call = "sample_Attributes_Call ?as None"
      and walker = sample_walker, OF c n s d v p b] w b'
  show ?thesis by simp
qed

subsection \<open>EnsureNoError\<close>

text \<open>
  C3. With a nil error \<open>proc\<close> runs once (the counter of its calls goes from 0 to 1)
  and its result is returned. With an error of dynamic type \<open>Error\<close> at \<open>WarningLevel\<close>,
  \<open>proc\<close> does not run and nil is returned; at \<open>ErrorLevel\<close>, \<open>proc\<close> does not run and
  the error is returned as it is.
\<close>

theorem EnsureNoError_nil_warning_blocking:
  "EnsureNoError None (counting proc) (0, w) = (Returned (fst (proc w)), (1, snd (proc w)))
   \<and> (Level appErr = WarningLevel \<longrightarrow>
        EnsureNoError (Some (ErrorValue appErr)) (counting proc) (0, w)
          = (Returned None, (0, w)))
   \<and> (Level appErr = ErrorLevel \<longrightarrow>
        EnsureNoError (Some (ErrorValue appErr)) (counting proc) (0, w)
          = (Returned (Some (ErrorValue appErr)), (0, w)))"
  by (simp add: counting_def split: prod.splits)

theorem EnsureNoError_nil_warning_blocking_witness:
  "EnsureNoError None (counting sample_proc) (0, 0) = (Returned None, (1, 10))
   \<and> EnsureNoError (Some (ErrorValue (Error (OtherCode 1) WarningLevel ''unknown value'' None)))
        (counting sample_proc) (0, 0) = (Returned None, (0, 0))
   \<and> EnsureNoError (Some (ErrorValue (Error (OtherCode 0) ErrorLevel ''failed'' None)))
        (counting sample_proc) (0, 0)
      = (Returned (Some (ErrorValue (Error (OtherCode 0) ErrorLevel ''failed'' None))), (0, 0))"
  using EnsureNoError_nil_warning_blocking
      [of sample_proc 0 "Error (OtherCode 1) WarningLevel ''unknown value'' None"]
    EnsureNoError_nil_warning_blocking
      [of sample_proc 0 "Error (OtherCode 0) ErrorLevel ''failed'' None"]
  by (simp add: sample_proc_def)

text \<open>
  C7. An error of dynamic type \<open>Error\<close> whose level is neither \<open>WarningLevel\<close> nor
  \<open>ErrorLevel\<close> makes \<open>EnsureNoError\<close> panic with that error: no error value is
  returned, and \<open>proc\<close> does not run.
\<close>

theorem EnsureNoError_unknown_level_panics:
  assumes "Level appErr \<noteq> WarningLevel" and "Level appErr \<noteq> ErrorLevel"
  shows "EnsureNoError (Some (ErrorValue appErr)) (counting proc) (0, w)
           = (Panicked (PanicError appErr), (0, w))"
  using assms by (cases "Level appErr") simp_all

theorem EnsureNoError_unknown_level_panics_witness:
  "Level (Error (OtherCode 0) (UnknownLevel 0) ''fatal'' None) \<noteq> WarningLevel
   \<and> Level (Error (OtherCode 0) (UnknownLevel 0) ''fatal'' None) \<noteq> ErrorLevel
   \<and> EnsureNoError (Some (ErrorValue (Error (OtherCode 0) (UnknownLevel 0) ''fatal'' None)))
        (counting sample_proc) (0, 0)
      = (Panicked (PanicError (Error (OtherCode 0) (UnknownLevel 0) ''fatal'' None)), (0, 0))"
proof -
  have a: "Level (Error (OtherCode 0) (UnknownLevel 0) ''fatal'' None) \<noteq> WarningLevel" by simp
  have b: "Level (Error (OtherCode 0) (UnknownLevel 0) ''fatal'' None) \<noteq> ErrorLevel" by simp
  from a b EnsureNoError_unknown_level_panics [OF a b, of sample_proc 0]
  show ?thesis by blast
qed

subsection \<open>EvaluateExpr and EmitIssue\<close>

lemma EvaluateExpr_after_reply:
  assumes "ReadFile (Filename (hcl_Expression.Range expr)) w = Inr src"
    and "Call ''Plugin.EvalExpr''
           \<lparr>EvalExprRequest.Expr = SliceBytes (hcl_Expression.Range expr) src,
            EvalExprRequest.ExprRange = hcl_Expression.Range expr, Ret = ret\<rparr> w
         = (Inr response, w1)"
    and "EvalExprResponse.Err response = None"
    and "FromCtyValue (Val response) ret = (r, ret')"
  shows "EvaluateExpr ReadFile SliceBytes Call FromCtyValue expr ret w
           = ((case r of
                 None \<Rightarrow> None
               | Some cause \<Rightarrow>
                   Some (ErrorPointer
                     (Error TypeMismatchError ErrorLevel
                        (''Invalid type expression in ''
                           @ Filename (hcl_Expression.Range expr) @ '':''
                           @ fmt_d (Line (Start (hcl_Expression.Range expr))))
                        (Some cause))), ret'), w1)"
  using assms by (simp add: EvaluateExpr_def split: option.splits)

text \<open>
  C4. The file is read, the call succeeds and the response has no application error. If
  the conversion of the value into the destination fails with \<open>cause\<close>, \<open>EvaluateExpr\<close>
  returns a non-nil error: a \<open>*Error\<close> with code \<open>TypeMismatchError\<close>, level \<open>ErrorLevel\<close>,
  a message that ends in the expression's filename, a colon and its start line, and
  \<open>cause\<close> as its cause.
\<close>

theorem EvaluateExpr_type_mismatch:
  assumes read: "ReadFile (Filename (hcl_Expression.Range expr)) w = Inr src"
    and call: "Call ''Plugin.EvalExpr''
           \<lparr>EvalExprRequest.Expr = SliceBytes (hcl_Expression.Range expr) src,
            EvalExprRequest.ExprRange = hcl_Expression.Range expr, Ret = ret\<rparr> w
         = (Inr response, w1)"
    and noerr: "EvalExprResponse.Err response = None"
    and conv: "FromCtyValue (Val response) ret = (Some cause, ret')"
  shows "\<exists>appErr. fst (fst (EvaluateExpr ReadFile SliceBytes Call FromCtyValue expr ret w))
                    = Some (ErrorPointer appErr)
           \<and> Code appErr = TypeMismatchError
           \<and> Level appErr = ErrorLevel
           \<and> Error.Message appErr
               = ''Invalid type expression in '' @ Filename (hcl_Expression.Range expr)
                   @ '':'' @ fmt_d (Line (Start (hcl_Expression.Range expr)))
           \<and> Cause appErr = Some cause"
  by (simp add: EvaluateExpr_after_reply [where Call = Call and ReadFile = ReadFile
        and SliceBytes = SliceBytes and FromCtyValue = FromCtyValue, OF read call noerr conv])

theorem EvaluateExpr_type_mismatch_witness:
  "fst (sample_FromCtyValue ''abc'' 0) = Some (ForeignError ''number required'')
   \<and> fst (fst (EvaluateExpr sample_ReadFile sample_SliceBytes (sample_EvalExpr_Call ''abc'' None)
        sample_FromCtyValue (sample_Expression ''main.tf'') 0 0))
     = Some (ErrorPointer (Error TypeMismatchError ErrorLevel
          ''Invalid type expression in main.tf:3'' (Some (ForeignError ''number required''))))"
proof -
  have r: "sample_ReadFile (Filename (hcl_Expression.Range (sample_Expression ''main.tf''))) 0
             = Inr ''a = var.x + 1''"
    by code_simp
  have c: "sample_EvalExpr_Call ''abc'' None ''Plugin.EvalExpr''
             \<lparr>EvalExprRequest.Expr =
                sample_SliceBytes (hcl_Expression.Range (sample_Expression ''main.tf''))
                  ''a = var.x + 1'',
              EvalExprRequest.ExprRange = hcl_Expression.Range (sample_Expression ''main.tf''),
              Ret = 0\<rparr> 0
           = (Inr \<lparr>Val = ''abc'', EvalExprResponse.Err = None\<rparr>, 1)"
    by (simp add: sample_EvalExpr_Call_def)
  have n: "EvalExprResponse.Err \<lparr>Val = ''abc'', EvalExprResponse.Err = None\<rparr> = None"
    by simp
  have f: "sample_FromCtyValue (Val \<lparr>Val = ''abc'', EvalExprResponse.Err = None\<rparr>) 0
             = (Some (ForeignError ''number required''), 0)"
    by code_simp
  have m: "''Invalid type expression in ''
             @ Filename (hcl_Expression.Range (sample_Expression ''main.tf'')) @ '':''
             @ fmt_d (Line (Start (hcl_Expression.Range (sample_Expression ''main.tf''))))
           = ''Invalid type expression in main.tf:3''"
    by code_simp
  have g: "fst (sample_FromCtyValue ''abc'' 0) = Some (ForeignError ''number required'')"
    by code_simp
  from EvaluateExpr_type_mismatch [where Call = "sample_EvalExpr_Call ''abc'' None"
      and ReadFile = sample_ReadFile and SliceBytes = sample_SliceBytes
      and FromCtyValue = sample_FromCtyValue, OF r c n f]
  obtain appErr where
    "fst (fst (EvaluateExpr sample_ReadFile sample_SliceBytes (sample_EvalExpr_Call ''abc'' None)
        sample_FromCtyValue (sample_Expression ''main.tf'') 0 0)) = Some (ErrorPointer appErr)"
    and "Code appErr = TypeMismatchError" and "Level appErr = ErrorLevel"
    and "Error.Message appErr = ''Invalid type expression in main.tf:3''"
    and "Cause appErr = Some (ForeignError ''number required'')"
    unfolding m by blast
  then show ?thesis using g by (cases appErr) simp
qed

text \<open>
  C10. \<open>EnsureNoError\<close> treats every error of dynamic type \<open>*Error\<close> as a foreign
  error: whatever its level (warning, blocking or unknown), the error is returned as it
  is, \<open>proc\<close> does not run and nothing panics. The type mismatch error of
  \<open>EvaluateExpr\<close> is such a pointer, so it goes through \<open>EnsureNoError\<close> unchanged.
\<close>

theorem EnsureNoError_pointer_is_foreign:
  "EnsureNoError (Some (ErrorPointer appErr)) (counting proc) (0, w)
     = (Returned (Some (ErrorPointer appErr)), (0, w))
   \<and> (ReadFile (Filename (hcl_Expression.Range expr)) v = Inr src
        \<and> Call ''Plugin.EvalExpr''
             \<lparr>EvalExprRequest.Expr = SliceBytes (hcl_Expression.Range expr) src,
              EvalExprRequest.ExprRange = hcl_Expression.Range expr, Ret = ret\<rparr> v
           = (Inr response, v1)
        \<and> EvalExprResponse.Err response = None
        \<and> fst (FromCtyValue (Val response) ret) = Some cause \<longrightarrow>
      (\<exists>mismatch. fst (fst (EvaluateExpr ReadFile SliceBytes Call FromCtyValue expr ret v))
                     = Some (ErrorPointer mismatch)
                 \<and> Code mismatch = TypeMismatchError)
      \<and> EnsureNoError (fst (fst (EvaluateExpr ReadFile SliceBytes Call FromCtyValue expr ret v)))
            (counting proc) (0, w)
          = (Returned (fst (fst (EvaluateExpr ReadFile SliceBytes Call FromCtyValue expr ret v))),
             (0, w)))"
proof (intro conjI impI)
  show "EnsureNoError (Some (ErrorPointer appErr)) (counting proc) (0, w)
          = (Returned (Some (ErrorPointer appErr)), (0, w))"
    by simp
next
  assume a: "ReadFile (Filename (hcl_Expression.Range expr)) v = Inr src
        \<and> Call ''Plugin.EvalExpr''
             \<lparr>EvalExprRequest.Expr = SliceBytes (hcl_Expression.Range expr) src,
              EvalExprRequest.ExprRange = hcl_Expression.Range expr, Ret = ret\<rparr> v
           = (Inr response, v1)
        \<and> EvalExprResponse.Err response = None
        \<and> fst (FromCtyValue (Val response) ret) = Some cause"
  then obtain ret' where conv: "FromCtyValue (Val response) ret = (Some cause, ret')"
    by (cases "FromCtyValue (Val response) ret") auto
  from a have read: "ReadFile (Filename (hcl_Expression.Range expr)) v = Inr src"
    and call: "Call ''Plugin.EvalExpr''
             \<lparr>EvalExprRequest.Expr = SliceBytes (hcl_Expression.Range expr) src,
              EvalExprRequest.ExprRange = hcl_Expression.Range expr, Ret = ret\<rparr> v
           = (Inr response, v1)"
    and noerr: "EvalExprResponse.Err response = None"
    by simp_all
  note eq = EvaluateExpr_after_reply [where Call = Call and ReadFile = ReadFile
        and SliceBytes = SliceBytes and FromCtyValue = FromCtyValue, OF read call noerr conv]
  show "\<exists>mismatch. fst (fst (EvaluateExpr ReadFile SliceBytes Call FromCtyValue expr ret v))
                     = Some (ErrorPointer mismatch)
                 \<and> Code mismatch = TypeMismatchError"
    by (simp add: eq)
  show "EnsureNoError (fst (fst (EvaluateExpr ReadFile SliceBytes Call FromCtyValue expr ret v)))
            (counting proc) (0, w)
          = (Returned (fst (fst (EvaluateExpr ReadFile SliceBytes Call FromCtyValue expr ret v))),
             (0, w))"
    by (simp add: eq)
qed

theorem EnsureNoError_pointer_is_foreign_witness:
  "EnsureNoError (Some (ErrorPointer (Error (OtherCode 1) WarningLevel ''unknown value'' None)))
       (counting sample_proc) (0, 0)
     = (Returned (Some (ErrorPointer (Error (OtherCode 1) WarningLevel ''unknown value'' None))),
        (0, 0))
   \<and> EnsureNoError (Some (ErrorPointer (Error (OtherCode 0) (UnknownLevel 0) ''fatal'' None)))
       (counting sample_proc) (0, 0)
     = (Returned (Some (ErrorPointer (Error (OtherCode 0) (UnknownLevel 0) ''fatal'' None))),
        (0, 0))
   \<and> fst (sample_FromCtyValue ''abc'' 0) = Some (ForeignError ''number required'')
   \<and> EnsureNoError
       (fst (fst (EvaluateExpr sample_ReadFile sample_SliceBytes (sample_EvalExpr_Call ''abc'' None)
          sample_FromCtyValue (sample_Expression ''main.tf'') 0 0)))
       (counting sample_proc) (0, 0)
     = (Returned (Some (ErrorPointer (Error TypeMismatchError ErrorLevel
          ''Invalid type expression in main.tf:3'' (Some (ForeignError ''number required''))))),
        (0, 0))"
proof -
  have r: "sample_ReadFile (Filename (hcl_Expression.Range (sample_Expression ''main.tf''))) 0
             = Inr ''a = var.x + 1''"
    by code_simp
  have c: "sample_EvalExpr_Call ''abc'' None ''Plugin.EvalExpr''
             \<lparr>EvalExprRequest.Expr =
                sample_SliceBytes (hcl_Expression.Range (sample_Expression ''main.tf''))
                  ''a = var.x + 1'',
              EvalExprRequest.ExprRange = hcl_Expression.Range (sample_Expression ''main.tf''),
              Ret = 0\<rparr> 0
           = (Inr \<lparr>Val = ''abc'', EvalExprResponse.Err = None\<rparr>, 1)"
    by (simp add: sample_EvalExpr_Call_def)
  have n: "EvalExprResponse.Err \<lparr>Val = ''abc'', EvalExprResponse.Err = None\<rparr> = None"
    by simp
  have f: "fst (sample_FromCtyValue (Val \<lparr>Val = ''abc'', EvalExprResponse.Err = None\<rparr>) 0)
             = Some (ForeignError ''number required'')"
    by code_simp
  have g: "fst (sample_FromCtyValue ''abc'' 0) = Some (ForeignError ''number required'')"
    by code_simp
  have v: "fst (fst (EvaluateExpr sample_ReadFile sample_SliceBytes
             (sample_EvalExpr_Call ''abc'' None) sample_FromCtyValue
             (sample_Expression ''main.tf'') 0 0))
           = Some (ErrorPointer (Error TypeMismatchError ErrorLevel
               ''Invalid type expression in main.tf:3'' (Some (ForeignError ''number required''))))"
    by code_simp
  from r c n f have h: "sample_ReadFile
        (Filename (hcl_Expression.Range (sample_Expression ''main.tf''))) 0
          = Inr ''a = var.x + 1''
      \<and> sample_EvalExpr_Call ''abc'' None ''Plugin.EvalExpr''
             \<lparr>EvalExprRequest.Expr =
                sample_SliceBytes (hcl_Expression.Range (sample_Expression ''main.tf''))
                  ''a = var.x + 1'',
              EvalExprRequest.ExprRange = hcl_Expression.Range (sample_Expression ''main.tf''),
              Ret = 0\<rparr> 0
           = (Inr \<lparr>Val = ''abc'', EvalExprResponse.Err = None\<rparr>, 1)
      \<and> EvalExprResponse.Err \<lparr>Val = ''abc'', EvalExprResponse.Err = None\<rparr> = None
      \<and> fst (sample_FromCtyValue (Val \<lparr>Val = ''abc'', EvalExprResponse.Err = None\<rparr>) 0)
           = Some (ForeignError ''number required'')"
    by blast
  note t1 = EnsureNoError_pointer_is_foreign
      [where appErr = "Error (OtherCode 1) WarningLevel ''unknown value'' None"
        and proc = sample_proc and w = 0 and ReadFile = sample_ReadFile
        and expr = "sample_Expression ''main.tf''" and v = 0 and src = "''a = var.x + 1''"
        and Call = "sample_EvalExpr_Call ''abc'' None" and SliceBytes = sample_SliceBytes
        and ret = 0 and response = "\<lparr>Val = ''abc'', EvalExprResponse.Err = None\<rparr>"
        and ?v1.0 = 1 and FromCtyValue = sample_FromCtyValue
        and cause = "ForeignError ''number required''"]
  note t2 = EnsureNoError_pointer_is_foreign
      [where appErr = "Error (OtherCode 0) (UnknownLevel 0) ''fatal'' None"
        and proc = sample_proc and w = 0 and ReadFile = sample_ReadFile
        and expr = "sample_Expression ''main.tf''" and v = 0 and src = "''a = var.x + 1''"
        and Call = "sample_EvalExpr_Call ''abc'' None" and SliceBytes = sample_SliceBytes
        and ret = 0 and response = "\<lparr>Val = ''abc'', EvalExprResponse.Err = None\<rparr>"
        and ?v1.0 = 1 and FromCtyValue = sample_FromCtyValue
        and cause = "ForeignError ''number required''"]
  from t1 have p1: "EnsureNoError
       (Some (ErrorPointer (Error (OtherCode 1) WarningLevel ''unknown value'' None)))
       (counting sample_proc) (0, 0)
     = (Returned (Some (ErrorPointer (Error (OtherCode 1) WarningLevel ''unknown value'' None))),
        (0, 0))"
    by blast
  from t2 have p2: "EnsureNoError
       (Some (ErrorPointer (Error (OtherCode 0) (UnknownLevel 0) ''fatal'' None)))
       (counting sample_proc) (0, 0)
     = (Returned (Some (ErrorPointer (Error (OtherCode 0) (UnknownLevel 0) ''fatal'' None))),
        (0, 0))"
    by blast
  from t1 h have p3: "EnsureNoError
       (fst (fst (EvaluateExpr sample_ReadFile sample_SliceBytes (sample_EvalExpr_Call ''abc'' None)
          sample_FromCtyValue (sample_Expression ''main.tf'') 0 0)))
       (counting sample_proc) (0, 0)
     = (Returned (fst (fst (EvaluateExpr sample_ReadFile sample_SliceBytes
          (sample_EvalExpr_Call ''abc'' None) sample_FromCtyValue
          (sample_Expression ''main.tf'') 0 0))), (0, 0))"
    by blast
  from p1 p2 g p3 show ?thesis unfolding v by blast
qed

lemma Range_SliceBytes_in_range:
  assumes "0 \<le> Byte (Start r)" and "Byte (Start r) \<le> Byte (End r)"
    and "Byte (End r) \<le> int (length b)"
  shows "Range_SliceBytes r b
           = take (nat (Byte (End r) - Byte (Start r))) (drop (nat (Byte (Start r))) b)"
  using assms by (simp add: Range_SliceBytes_def Let_def nat_diff_distrib)

text \<open>
  C9, as amended. \<open>EvaluateExpr\<close> and \<open>EmitIssue\<close> read the file named by the
  expression's range. If the read succeeds with the content \<open>src\<close> and the recorded byte
  offsets lie within it (0 \<open>\<le>\<close> start \<open>\<le>\<close> end \<open>\<le>\<close> length of \<open>src\<close>), exactly one request
  is sent and its \<open>Expr\<close> field is exactly the bytes of \<open>src\<close> from the start offset up to
  the end offset. If the read fails, the read's error is returned and no request is sent
  (the log of calls stays empty), whatever the slicing function.
\<close>

theorem encode_reads_file_and_slices:
  "(ReadFile (Filename (hcl_Expression.Range expr)) w = Inr src
      \<and> 0 \<le> Byte (Start (hcl_Expression.Range expr))
      \<and> Byte (Start (hcl_Expression.Range expr)) \<le> Byte (End (hcl_Expression.Range expr))
      \<and> Byte (End (hcl_Expression.Range expr)) \<le> int (length src) \<longrightarrow>
      fst (snd (EvaluateExpr (reading ReadFile) Range_SliceBytes (recording_Call Call)
                  FromCtyValue expr ret ([], w)))
        = [(''Plugin.EvalExpr'',
            \<lparr>EvalExprRequest.Expr =
               take (nat (Byte (End (hcl_Expression.Range expr))
                          - Byte (Start (hcl_Expression.Range expr))))
                 (drop (nat (Byte (Start (hcl_Expression.Range expr)))) src),
             EvalExprRequest.ExprRange = hcl_Expression.Range expr, Ret = ret\<rparr>)]
      \<and> int (length (take (nat (Byte (End (hcl_Expression.Range expr))
                          - Byte (Start (hcl_Expression.Range expr))))
                 (drop (nat (Byte (Start (hcl_Expression.Range expr)))) src)))
          = Byte (End (hcl_Expression.Range expr)) - Byte (Start (hcl_Expression.Range expr)))
   \<and> (ReadFile (Filename (hcl_Expression.Range expr)) w = Inl err \<longrightarrow>
      EvaluateExpr (reading ReadFile) SliceBytes (recording_Call Call) FromCtyValue
          expr ret ([], w)
        = ((Some err, ret), ([], w)))
   \<and> (ReadFile (Filename (hcl_Expression.Range (Metadata.Expr meta))) w = Inr src
      \<and> 0 \<le> Byte (Start (hcl_Expression.Range (Metadata.Expr meta)))
      \<and> Byte (Start (hcl_Expression.Range (Metadata.Expr meta)))
          \<le> Byte (End (hcl_Expression.Range (Metadata.Expr meta)))
      \<and> Byte (End (hcl_Expression.Range (Metadata.Expr meta))) \<le> int (length src) \<longrightarrow>
      fst (snd (EmitIssue (reading ReadFile) Range_SliceBytes (recording_Call Call')
                  newObjectFromRule rule message location meta ([], w)))
        = [(''Plugin.EmitIssue'',
            \<lparr>Rule = newObjectFromRule rule, Message = message, Location = location,
             EmitIssueRequest.Expr =
               take (nat (Byte (End (hcl_Expression.Range (Metadata.Expr meta)))
                          - Byte (Start (hcl_Expression.Range (Metadata.Expr meta)))))
                 (drop (nat (Byte (Start (hcl_Expression.Range (Metadata.Expr meta))))) src),
             EmitIssueRequest.ExprRange = hcl_Expression.Range (Metadata.Expr meta)\<rparr>)])
   \<and> (ReadFile (Filename (hcl_Expression.Range (Metadata.Expr meta))) w = Inl err \<longrightarrow>
      EmitIssue (reading ReadFile) SliceBytes (recording_Call Call') newObjectFromRule
          rule message location meta ([], w)
        = (Some err, ([], w)))"
proof (intro conjI impI)
  assume a: "ReadFile (Filename (hcl_Expression.Range expr)) w = Inr src
      \<and> 0 \<le> Byte (Start (hcl_Expression.Range expr))
      \<and> Byte (Start (hcl_Expression.Range expr)) \<le> Byte (End (hcl_Expression.Range expr))
      \<and> Byte (End (hcl_Expression.Range expr)) \<le> int (length src)"
  then have s: "Range_SliceBytes (hcl_Expression.Range expr) src
      = take (nat (Byte (End (hcl_Expression.Range expr))
                   - Byte (Start (hcl_Expression.Range expr))))
          (drop (nat (Byte (Start (hcl_Expression.Range expr)))) src)"
    by (simp add: Range_SliceBytes_in_range)
  from a have "fst (snd (EvaluateExpr (reading ReadFile) Range_SliceBytes (recording_Call Call)
                  FromCtyValue expr ret ([], w)))
        = [(''Plugin.EvalExpr'',
            \<lparr>EvalExprRequest.Expr = Range_SliceBytes (hcl_Expression.Range expr) src,
             EvalExprRequest.ExprRange = hcl_Expression.Range expr, Ret = ret\<rparr>)]"
    by (simp add: EvaluateExpr_def reading_def recording_Call_def recording_def
          split: prod.splits sum.splits option.splits)
  then show "fst (snd (EvaluateExpr (reading ReadFile) Range_SliceBytes (recording_Call Call)
                  FromCtyValue expr ret ([], w)))
        = [(''Plugin.EvalExpr'',
            \<lparr>EvalExprRequest.Expr =
               take (nat (Byte (End (hcl_Expression.Range expr))
                          - Byte (Start (hcl_Expression.Range expr))))
                 (drop (nat (Byte (Start (hcl_Expression.Range expr)))) src),
             EvalExprRequest.ExprRange = hcl_Expression.Range expr, Ret = ret\<rparr>)]"
    unfolding s .
  from a show "int (length (take (nat (Byte (End (hcl_Expression.Range expr))
                          - Byte (Start (hcl_Expression.Range expr))))
                 (drop (nat (Byte (Start (hcl_Expression.Range expr)))) src)))
          = Byte (End (hcl_Expression.Range expr)) - Byte (Start (hcl_Expression.Range expr))"
    by auto
next
  assume "ReadFile (Filename (hcl_Expression.Range expr)) w = Inl err"
  then show "EvaluateExpr (reading ReadFile) SliceBytes (recording_Call Call) FromCtyValue
          expr ret ([], w) = ((Some err, ret), ([], w))"
    by (simp add: EvaluateExpr_def reading_def)
next
  assume a: "ReadFile (Filename (hcl_Expression.Range (Metadata.Expr meta))) w = Inr src
      \<and> 0 \<le> Byte (Start (hcl_Expression.Range (Metadata.Expr meta)))
      \<and> Byte (Start (hcl_Expression.Range (Metadata.Expr meta)))
          \<le> Byte (End (hcl_Expression.Range (Metadata.Expr meta)))
      \<and> Byte (End (hcl_Expression.Range (Metadata.Expr meta))) \<le> int (length src)"
  then have s: "Range_SliceBytes (hcl_Expression.Range (Metadata.Expr meta)) src
      = take (nat (Byte (End (hcl_Expression.Range (Metadata.Expr meta)))
                   - Byte (Start (hcl_Expression.Range (Metadata.Expr meta)))))
          (drop (nat (Byte (Start (hcl_Expression.Range (Metadata.Expr meta))))) src)"
    by (simp add: Range_SliceBytes_in_range)
  from a have "fst (snd (EmitIssue (reading ReadFile) Range_SliceBytes (recording_Call Call')
                  newObjectFromRule rule message location meta ([], w)))
        = [(''Plugin.EmitIssue'',
            \<lparr>Rule = newObjectFromRule rule, Message = message, Location = location,
             EmitIssueRequest.Expr =
               Range_SliceBytes (hcl_Expression.Range (Metadata.Expr meta)) src,
             EmitIssueRequest.ExprRange = hcl_Expression.Range (Metadata.Expr meta)\<rparr>)]"
    by (simp add: EmitIssue_def reading_def recording_Call_def recording_def
          split: prod.splits sum.splits)
  then show "fst (snd (EmitIssue (reading ReadFile) Range_SliceBytes (recording_Call Call')
                  newObjectFromRule rule message location meta ([], w)))
        = [(''Plugin.EmitIssue'',
            \<lparr>Rule = newObjectFromRule rule, Message = message, Location = location,
             EmitIssueRequest.Expr =
               take (nat (Byte (End (hcl_Expression.Range (Metadata.Expr meta)))
                          - Byte (Start (hcl_Expression.Range (Metadata.Expr meta)))))
                 (drop (nat (Byte (Start (hcl_Expression.Range (Metadata.Expr meta))))) src),
             EmitIssueRequest.ExprRange = hcl_Expression.Range (Metadata.Expr meta)\<rparr>)]"
    unfolding s .
next
  assume "ReadFile (Filename (hcl_Expression.Range (Metadata.Expr meta))) w = Inl err"
  then show "EmitIssue (reading ReadFile) SliceBytes (recording_Call Call') newObjectFromRule
          rule message location meta ([], w) = (Some err, ([], w))"
    by (simp add: EmitIssue_def reading_def)
qed

theorem encode_reads_file_and_slices_witness:
  "sample_ReadFile ''main.tf'' 0 = Inr ''a = var.x + 1''
   \<and> Byte (Start (sample_Range ''main.tf'')) = 4 \<and> Byte (End (sample_Range ''main.tf'')) = 9
   \<and> fst (snd (EvaluateExpr (reading sample_ReadFile) Range_SliceBytes
         (recording_Call (sample_EvalExpr_Call ''12'' None)) sample_FromCtyValue
         (sample_Expression ''main.tf'') 0 ([], 0)))
      = [(''Plugin.EvalExpr'',
          \<lparr>EvalExprRequest.Expr = ''var.x'',
           EvalExprRequest.ExprRange = sample_Range ''main.tf'', Ret = 0\<rparr>)]
   \<and> sample_ReadFile ''gone.tf'' 0 = Inl (ForeignError ''no such file'')
   \<and> EvaluateExpr (reading sample_ReadFile) Range_SliceBytes
         (recording_Call (sample_EvalExpr_Call ''12'' None)) sample_FromCtyValue
         (sample_Expression ''gone.tf'') 0 ([], 0)
      = ((Some (ForeignError ''no such file''), 0), ([], 0))
   \<and> fst (snd (EmitIssue (reading sample_ReadFile) Range_SliceBytes
         (recording_Call (sample_EmitIssue_Call (Inr None))) sample_newObjectFromRule
         ''r1'' ''too big'' (sample_Range ''main.tf'') (sample_Metadata ''main.tf'') ([], 0)))
      = [(''Plugin.EmitIssue'',
          \<lparr>Rule = ''rule:r1'', Message = ''too big'', Location = sample_Range ''main.tf'',
           EmitIssueRequest.Expr = ''var.x'',
           EmitIssueRequest.ExprRange = sample_Range ''main.tf''\<rparr>)]
   \<and> EmitIssue (reading sample_ReadFile) Range_SliceBytes
         (recording_Call (sample_EmitIssue_Call (Inr None))) sample_newObjectFromRule
         ''r1'' ''too big'' (sample_Range ''main.tf'') (sample_Metadata ''gone.tf'') ([], 0)
      = (Some (ForeignError ''no such file''), ([], 0))"
proof -
  have a: "sample_ReadFile (Filename (hcl_Expression.Range (sample_Expression ''main.tf''))) 0
             = Inr ''a = var.x + 1''
      \<and> 0 \<le> Byte (Start (hcl_Expression.Range (sample_Expression ''main.tf'')))
      \<and> Byte (Start (hcl_Expression.Range (sample_Expression ''main.tf'')))
          \<le> Byte (End (hcl_Expression.Range (sample_Expression ''main.tf'')))
      \<and> Byte (End (hcl_Expression.Range (sample_Expression ''main.tf'')))
          \<le> int (length ''a = var.x + 1'')"
    by code_simp
  have b: "sample_ReadFile (Filename (hcl_Expression.Range (sample_Expression ''gone.tf''))) 0
             = Inl (ForeignError ''no such file'')"
    by code_simp
  have c: "sample_ReadFile
             (Filename (hcl_Expression.Range (Metadata.Expr (sample_Metadata ''main.tf'')))) 0
             = Inr ''a = var.x + 1''
      \<and> 0 \<le> Byte (Start (hcl_Expression.Range (Metadata.Expr (sample_Metadata ''main.tf''))))
      \<and> Byte (Start (hcl_Expression.Range (Metadata.Expr (sample_Metadata ''main.tf''))))
          \<le> Byte (End (hcl_Expression.Range (Metadata.Expr (sample_Metadata ''main.tf''))))
      \<and> Byte (End (hcl_Expression.Range (Metadata.Expr (sample_Metadata ''main.tf''))))
          \<le> int (length ''a = var.x + 1'')"
    by code_simp
  have d: "sample_ReadFile
             (Filename (hcl_Expression.Range (Metadata.Expr (sample_Metadata ''gone.tf'')))) 0
             = Inl (ForeignError ''no such file'')"
    by code_simp
  have s: "take (nat (Byte (End (sample_Range ''main.tf'')) - Byte (Start (sample_Range ''main.tf''))))
             (drop (nat (Byte (Start (sample_Range ''main.tf'')))) ''a = var.x + 1'') = ''var.x''"
    by code_simp
  have e: "hcl_Expression.Range (sample_Expression ''main.tf'') = sample_Range ''main.tf''"
    "hcl_Expression.Range (Metadata.Expr (sample_Metadata ''main.tf'')) = sample_Range ''main.tf''"
    "sample_newObjectFromRule ''r1'' = ''rule:r1''"
    "sample_ReadFile ''main.tf'' 0 = Inr ''a = var.x + 1''"
    "sample_ReadFile ''gone.tf'' 0 = Inl (ForeignError ''no such file'')"
    by (simp_all add: sample_Expression_def sample_Metadata_def sample_newObjectFromRule_def
          sample_ReadFile_def)
  have f: "Byte (Start (sample_Range ''main.tf'')) = 4" "Byte (End (sample_Range ''main.tf'')) = 9"
    by (simp_all add: sample_Range_def)
  note t1 = encode_reads_file_and_slices [where ReadFile = sample_ReadFile
      and expr = "sample_Expression ''main.tf''" and w = 0 and src = "''a = var.x + 1''"
      and Call = "sample_EvalExpr_Call ''12'' None" and FromCtyValue = sample_FromCtyValue
      and ret = 0 and meta = "sample_Metadata ''main.tf''"
      and Call' = "sample_EmitIssue_Call (Inr None)"
      and newObjectFromRule = sample_newObjectFromRule and rule = "''r1''"
      and message = "''too big''" and location = "sample_Range ''main.tf''"]
  note t2 = encode_reads_file_and_slices [where ReadFile = sample_ReadFile
      and expr = "sample_Expression ''gone.tf''" and w = 0
      and err = "ForeignError ''no such file''" and SliceBytes = Range_SliceBytes
      and Call = "sample_EvalExpr_Call ''12'' None" and FromCtyValue = sample_FromCtyValue
      and ret = 0 and meta = "sample_Metadata ''gone.tf''"
      and Call' = "sample_EmitIssue_Call (Inr None)"
      and newObjectFromRule = sample_newObjectFromRule and rule = "''r1''"
      and message = "''too big''" and location = "sample_Range ''main.tf''"]
  from t1 a have p1: "fst (snd (EvaluateExpr (reading sample_ReadFile) Range_SliceBytes
         (recording_Call (sample_EvalExpr_Call ''12'' None)) sample_FromCtyValue
         (sample_Expression ''main.tf'') 0 ([], 0)))
      = [(''Plugin.EvalExpr'',
          \<lparr>EvalExprRequest.Expr = ''var.x'',
           EvalExprRequest.ExprRange = sample_Range ''main.tf'', Ret = 0\<rparr>)]"
    unfolding e s by blast
  from t1 c have p2: "fst (snd (EmitIssue (reading sample_ReadFile) Range_SliceBytes
         (recording_Call (sample_EmitIssue_Call (Inr None))) sample_newObjectFromRule
         ''r1'' ''too big'' (sample_Range ''main.tf'') (sample_Metadata ''main.tf'') ([], 0)))
      = [(''Plugin.EmitIssue'',
          \<lparr>Rule = ''rule:r1'', Message = ''too big'', Location = sample_Range ''main.tf'',
           EmitIssueRequest.Expr = ''var.x'',
           EmitIssueRequest.ExprRange = sample_Range ''main.tf''\<rparr>)]"
    unfolding e s by blast
  from t2 b have p3: "EvaluateExpr (reading sample_ReadFile) Range_SliceBytes
         (recording_Call (sample_EvalExpr_Call ''12'' None)) sample_FromCtyValue
         (sample_Expression ''gone.tf'') 0 ([], 0)
      = ((Some (ForeignError ''no such file''), 0), ([], 0))"
    by blast
  from t2 d have p4: "EmitIssue (reading sample_ReadFile) Range_SliceBytes
         (recording_Call (sample_EmitIssue_Call (Inr None))) sample_newObjectFromRule
         ''r1'' ''too big'' (sample_Range ''main.tf'') (sample_Metadata ''gone.tf'') ([], 0)
      = (Some (ForeignError ''no such file''), ([], 0))"
    by blast
  from p1 p2 p3 p4 e(4) e(5) f show ?thesis by blast
qed

text \<open>
  C9, as stated, fails: here the file read is shorter than the recorded range (bytes 4 to
  9 of a file of 7 bytes). The request carries the 3 bytes that overlap, not the 5 bytes
  of the recorded range.
\<close>

theorem encode_slice_out_of_range_counterexample:
  "sample_truncated_ReadFile (Filename (hcl_Expression.Range (sample_Expression ''main.tf''))) 0
     = Inr ''a = var''
   \<and> Byte (Start (hcl_Expression.Range (sample_Expression ''main.tf''))) = 4
   \<and> Byte (End (hcl_Expression.Range (sample_Expression ''main.tf''))) = 9
   \<and> fst (snd (EvaluateExpr (reading sample_truncated_ReadFile) Range_SliceBytes
         (recording_Call (sample_EvalExpr_Call ''12'' None)) sample_FromCtyValue
         (sample_Expression ''main.tf'') 0 ([], 0)))
      = [(''Plugin.EvalExpr'',
          \<lparr>EvalExprRequest.Expr = ''var'',
           EvalExprRequest.ExprRange = sample_Range ''main.tf'', Ret = 0\<rparr>)]
   \<and> int (length ''var'')
       \<noteq> Byte (End (hcl_Expression.Range (sample_Expression ''main.tf'')))
           - Byte (Start (hcl_Expression.Range (sample_Expression ''main.tf'')))"
  by code_simp

text \<open>
  C1, as amended. After a successful read, \<open>EmitIssue\<close> returns the error of the RPC
  call when the call returns one (a transport failure, or an error that the host's
  handler returned through the RPC layer), and nil when the call returns none, whatever
  the reply holds: the reply is never read.
\<close>

theorem EmitIssue_returns_call_error:
  assumes read: "ReadFile (Filename (hcl_Expression.Range (Metadata.Expr meta))) w = Inr src"
  shows "(Call ''Plugin.EmitIssue''
             \<lparr>Rule = newObjectFromRule rule, Message = message, Location = location,
              EmitIssueRequest.Expr =
                SliceBytes (hcl_Expression.Range (Metadata.Expr meta)) src,
              EmitIssueRequest.ExprRange = hcl_Expression.Range (Metadata.Expr meta)\<rparr> w
            = (Inl err, w1) \<longrightarrow>
          EmitIssue ReadFile SliceBytes Call newObjectFromRule rule message location meta w
            = (Some err, w1))
       \<and> (Call ''Plugin.EmitIssue''
             \<lparr>Rule = newObjectFromRule rule, Message = message, Location = location,
              EmitIssueRequest.Expr =
                SliceBytes (hcl_Expression.Range (Metadata.Expr meta)) src,
              EmitIssueRequest.ExprRange = hcl_Expression.Range (Metadata.Expr meta)\<rparr> w
            = (Inr reply, w1) \<longrightarrow>
          EmitIssue ReadFile SliceBytes Call newObjectFromRule rule message location meta w
            = (None, w1))"
  using read by (simp add: EmitIssue_def)

theorem EmitIssue_returns_call_error_witness:
  "EmitIssue sample_ReadFile sample_SliceBytes
       (sample_EmitIssue_Call (Inl (ForeignError ''connection is shut down'')))
       sample_newObjectFromRule ''r1'' ''too big'' (sample_Range ''main.tf'')
       (sample_Metadata ''main.tf'') 0
     = (Some (ForeignError ''connection is shut down''), 1)
   \<and> EmitIssue sample_ReadFile sample_SliceBytes
       (sample_EmitIssue_Call (Inr (Some (ErrorValue (Error (OtherCode 0) ErrorLevel ''rejected'' None)))))
       sample_newObjectFromRule ''r1'' ''too big'' (sample_Range ''main.tf'')
       (sample_Metadata ''main.tf'') 0
     = (None, 1)"
proof -
  have r: "sample_ReadFile
             (Filename (hcl_Expression.Range (Metadata.Expr (sample_Metadata ''main.tf'')))) 0
             = Inr ''a = var.x + 1''"
    by code_simp
  from EmitIssue_returns_call_error [where ReadFile = sample_ReadFile
      and Call = "sample_EmitIssue_Call (Inl (ForeignError ''connection is shut down''))"
      and SliceBytes = sample_SliceBytes and newObjectFromRule = sample_newObjectFromRule
      and rule = "''r1''" and message = "''too big''" and location = "sample_Range ''main.tf''"
      and err = "ForeignError ''connection is shut down''" and ?w1.0 = 1, OF r]
    EmitIssue_returns_call_error [where ReadFile = sample_ReadFile
      and Call = "sample_EmitIssue_Call
        (Inr (Some (ErrorValue (Error (OtherCode 0) ErrorLevel ''rejected'' None))))"
      and SliceBytes = sample_SliceBytes and newObjectFromRule = sample_newObjectFromRule
      and rule = "''r1''" and message = "''too big''" and location = "sample_Range ''main.tf''"
      and reply = "Some (ErrorValue (Error (OtherCode 0) ErrorLevel ''rejected'' None))"
      and ?w1.0 = 1, OF r]
  show ?thesis by (simp add: sample_EmitIssue_Call_def)
qed

text \<open>
  C1, as stated, fails: here the read and the call succeed, the reply carries an
  application error, and \<open>EmitIssue\<close> returns nil.
\<close>

theorem EmitIssue_reply_error_counterexample:
  "sample_ReadFile (Filename (hcl_Expression.Range (Metadata.Expr (sample_Metadata ''main.tf'')))) 0
     = Inr ''a = var.x + 1''
   \<and> sample_EmitIssue_Call
       (Inr (Some (ErrorValue (Error (OtherCode 0) ErrorLevel ''rejected'' None))))
       ''Plugin.EmitIssue''
       \<lparr>Rule = ''rule:r1'', Message = ''too big'', Location = sample_Range ''main.tf'',
        EmitIssueRequest.Expr = ''var.x'',
        EmitIssueRequest.ExprRange = sample_Range ''main.tf''\<rparr> 0
     = (Inr (Some (ErrorValue (Error (OtherCode 0) ErrorLevel ''rejected'' None))), 1)
   \<and> fst (EmitIssue sample_ReadFile sample_SliceBytes
       (sample_EmitIssue_Call
          (Inr (Some (ErrorValue (Error (OtherCode 0) ErrorLevel ''rejected'' None)))))
       sample_newObjectFromRule ''r1'' ''too big'' (sample_Range ''main.tf'')
       (sample_Metadata ''main.tf'') 0)
     = None"
  by code_simp

end
